theory Spec2Isabelle
  imports Main "HOL-Library.Sublist"
begin

section \<open>Python strings\<close>

text \<open>
  A Python \<open>str\<close> is a sequence of Unicode code points. Code points are modelled as
  natural numbers, so that the whitespace and line-boundary characters beyond Latin-1
  that \<open>str.strip\<close> and \<open>str.splitlines\<close> recognise are part of the model.
  \<open>ustr\<close> turns an ASCII literal into such a sequence.
\<close>

type_synonym codepoint = nat
type_synonym pystr = "codepoint list"

definition ustr :: "string \<Rightarrow> pystr" where
  "ustr s = map of_char s"

text \<open>\<open>str.isspace\<close> on one character (CPython's \<open>_PyUnicode_IsWhitespace\<close>).\<close>

definition is_whitespace :: "codepoint \<Rightarrow> bool" where
  "is_whitespace c \<longleftrightarrow>
     (0x09 \<le> c \<and> c \<le> 0x0D) \<or> (0x1C \<le> c \<and> c \<le> 0x20) \<or> c = 0x85 \<or> c = 0xA0 \<or>
     c = 0x1680 \<or> (0x2000 \<le> c \<and> c \<le> 0x200A) \<or> c = 0x2028 \<or> c = 0x2029 \<or>
     c = 0x202F \<or> c = 0x205F \<or> c = 0x3000"

text \<open>The line boundaries of \<open>str.splitlines\<close> (CPython's \<open>_PyUnicode_IsLinebreak\<close>).\<close>

definition is_linebreak :: "codepoint \<Rightarrow> bool" where
  "is_linebreak c \<longleftrightarrow>
     (0x0A \<le> c \<and> c \<le> 0x0D) \<or> (0x1C \<le> c \<and> c \<le> 0x1E) \<or> c = 0x85 \<or>
     c = 0x2028 \<or> c = 0x2029"

text \<open>\<open>s.strip()\<close>: leading and trailing whitespace removed.\<close>

definition strip :: "pystr \<Rightarrow> pystr" where
  "strip s = rev (dropWhile is_whitespace (rev (dropWhile is_whitespace s)))"

text \<open>
  \<open>s.splitlines()\<close>: the text is cut at every line boundary, \<open>\r\n\<close> counting as one;
  the boundaries are dropped and no empty line follows a final boundary. The first
  argument is the line read so far, reversed.
\<close>

fun splitlines_from :: "pystr \<Rightarrow> pystr \<Rightarrow> pystr list" where
  "splitlines_from cur [] = (if cur = [] then [] else [rev cur])"
| "splitlines_from cur [c] =
     (if is_linebreak c then [rev cur] else [rev (c # cur)])"
| "splitlines_from cur (c # d # cs) =
     (if c = 0x0D \<and> d = 0x0A then rev cur # splitlines_from [] cs
      else if is_linebreak c then rev cur # splitlines_from [] (d # cs)
      else splitlines_from (c # cur) (d # cs))"

definition splitlines :: "pystr \<Rightarrow> pystr list" where
  "splitlines s = splitlines_from [] s"

text \<open>\<open>s.startswith(p)\<close>.\<close>

fun startswith :: "pystr \<Rightarrow> pystr \<Rightarrow> bool" where
  "startswith [] s = True"
| "startswith (p # ps) [] = False"
| "startswith (p # ps) (c # cs) = (p = c \<and> startswith ps cs)"

text \<open>
  \<open>s.split(sep, 1)\<close> for a one-character separator: the text before and the text after
  the first separator, or the text alone when it holds no separator.
\<close>

definition split1 :: "codepoint \<Rightarrow> pystr \<Rightarrow> pystr list" where
  "split1 sep s =
     (case dropWhile (\<lambda>c. c \<noteq> sep) s of
        [] \<Rightarrow> [s]
      | _ # after \<Rightarrow> [takeWhile (\<lambda>c. c \<noteq> sep) s, after])"

text \<open>\<open>sep.join(xs)\<close>.\<close>

fun join :: "pystr \<Rightarrow> pystr list \<Rightarrow> pystr" where
  "join sep [] = []"
| "join sep [x] = x"
| "join sep (x # y # ys) = x @ sep @ join sep (y # ys)"

text \<open>\<open>str(n)\<close> for an integer: decimal digits, with a sign when negative.\<close>

function digits :: "nat \<Rightarrow> pystr" where
  "digits n = (if n < 10 then [48 + n] else digits (n div 10) @ [48 + n mod 10])"
  by pat_completeness auto
termination
  by (relation "measure id") auto

declare digits.simps [simp del]

definition str_int :: "int \<Rightarrow> pystr" where
  "str_int i = (if i < 0 then 45 # digits (nat (- i)) else digits (nat i))"

section \<open>Exceptions, archives and the console\<close>

text \<open>
  An exception is carried with the text \<open>str(e)\<close> that the handlers print. Only
  exceptions derived from \<open>Exception\<close> are modelled; those are the ones that archive
  access, decoding, indexing and process creation raise.
\<close>

datatype exn = Exn pystr

fun str_exn :: "exn \<Rightarrow> pystr" where
  "str_exn (Exn msg) = msg"

definition IndexError :: exn where
  "IndexError = Exn (ustr ''list index out of range'')"

definition KeyError :: "pystr \<Rightarrow> exn" where
  "KeyError nm = Exn ([34] @ ustr ''There is no item named '' @ [39] @ nm @ [39]
                      @ ustr '' in the archive'' @ [34])"

text \<open>
  What \<open>zip_file.read(name).decode("utf-8")\<close> evaluates to for one archive member: the
  decoded text, or the exception raised by reading (bad checksum, encrypted or
  unsupported member) or by decoding (bytes that are not UTF-8).
\<close>

datatype member = Raises exn | Text pystr

text \<open>
  A file of the input directory as \<open>ZipFile(zip_path, 'r')\<close> sees it: opening raises
  (not an archive, truncated, unreadable, a directory), or it gives the members in the
  order of the archive's directory. Names may repeat; \<open>namelist()\<close> lists them all and
  \<open>read\<close> takes the last member of a name.
\<close>

datatype zfile = Unopenable exn | Archive "(pystr \<times> member) list"

definition namelist :: "(pystr \<times> member) list \<Rightarrow> pystr list" where
  "namelist ms = map fst ms"

definition zip_read :: "(pystr \<times> member) list \<Rightarrow> pystr \<Rightarrow> exn + member" where
  "zip_read ms nm = (case map_of (rev ms) nm of None \<Rightarrow> Inl (KeyError nm) | Some m \<Rightarrow> Inr m)"

text \<open>
  The effects of a run, in order: a line printed, an archive of the input directory
  opened (by file name), the external command run (by argument vector).

  In the sections up to \<open>main\<close> the console takes every line, so that a \<open>print\<close> is
  its event and nothing else. The section after \<open>main\<close> gives the same functions on a
  console that may refuse a line; on a console that takes every line the two agree
  (lemma \<open>main_io_quiet\<close>).
\<close>

datatype event = Print pystr | Open pystr | Run "pystr list"

section \<open>extract_module_id\<close>

definition updater_script :: pystr where
  "updater_script = ustr ''META-INF/com/google/android/updater-script''"

definition update_binary :: pystr where
  "update_binary = ustr ''META-INF/com/google/android/update-binary''"

definition module_prop :: pystr where
  "module_prop = ustr ''module.prop''"

text \<open>
  The loop over the lines of \<open>module.prop\<close> (source lines 39 to 44). \<open>Inr (Some i)\<close> is
  the \<open>return module_id\<close> inside the loop, \<open>Inr None\<close> the loop running to its end, and
  \<open>Inl\<close> the IndexError of \<open>[1]\<close> on a split that gave one part.
\<close>

fun find_id :: "pystr list \<Rightarrow> exn + pystr option" where
  "find_id [] = Inr None"
| "find_id (l # ls) =
     (let line = strip l in
      if startswith (ustr ''id='') line then
        (case split1 61 line of
           _ # v # _ \<Rightarrow>
             (let module_id = strip v in
              if module_id \<noteq> [] then Inr (Some module_id) else find_id ls)
         | _ \<Rightarrow> Inl IndexError)
      else find_id ls)"

text \<open>
  The body of the \<open>try\<close> (source lines 24 to 47): the lines printed and either the
  exception raised or the value returned.
\<close>

definition extract_try :: "pystr \<Rightarrow> zfile \<Rightarrow> event list \<times> (exn + pystr option)" where
  "extract_try name f =
     (case f of
        Unopenable e \<Rightarrow> ([], Inl e)
      | Archive ms \<Rightarrow>
          if updater_script \<notin> set (namelist ms) \<or> update_binary \<notin> set (namelist ms) then
            ([Print (ustr ''Warning: '' @ name @
                ustr '' is not a valid Magisk module (missing updater-script or update-binary)'')],
             Inr None)
          else if module_prop \<notin> set (namelist ms) then
            ([Print (ustr ''Warning: '' @ name @ ustr '' does not contain module.prop'')],
             Inr None)
          else
            (case zip_read ms module_prop of
               Inl e \<Rightarrow> ([], Inl e)
             | Inr (Raises e) \<Rightarrow> ([], Inl e)
             | Inr (Text t) \<Rightarrow>
                 (case find_id (splitlines t) of
                    Inl e \<Rightarrow> ([], Inl e)
                  | Inr (Some module_id) \<Rightarrow> ([], Inr (Some module_id))
                  | Inr None \<Rightarrow>
                      ([Print (ustr ''Warning: Could not find '' @ [39] @ ustr ''id='' @ [39] @
                          ustr '' in module.prop of '' @ name)],
                       Inr None))))"

text \<open>
  The whole function: the archive is opened, the body runs, and the handler of
  \<open>except Exception\<close> (source lines 49 to 51) turns an exception into a printed line
  and the result \<open>None\<close>.
\<close>

definition extract_module_id :: "pystr \<Rightarrow> zfile \<Rightarrow> event list \<times> pystr option" where
  "extract_module_id name f =
     (case extract_try name f of
        (out, Inr r) \<Rightarrow> (Open name # out, r)
      | (out, Inl e) \<Rightarrow>
          (Open name # out @ [Print (ustr ''Error reading '' @ name @ ustr '': '' @ str_exn e)],
           None))"

section \<open>add_track\<close>

text \<open>
  What \<open>subprocess.run\<close> gives: the return code with the captured standard output and
  standard error, or an exception (the command could not be started, or its output
  could not be decoded).
\<close>

datatype outcome = Exited int pystr pystr | Failed exn

text \<open>
  The command line of source lines 61 to 66. \<open>exe\<close> is \<open>sys.executable\<close>.
\<close>

definition track_cmd :: "pystr \<Rightarrow> pystr \<Rightarrow> pystr \<Rightarrow> pystr list" where
  "track_cmd exe module_id zip_filename =
     [exe, ustr ''cli.py'', ustr ''track'', ustr ''--add'',
      ustr ''id='' @ module_id,
      ustr ''update_to='' @ zip_filename,
      ustr ''changelog='']"

text \<open>
  The external tool is a parameter \<open>sh\<close>: from the state \<open>w\<close> of everything outside the
  script and an argument vector it gives the outcome of the run and the state after
  it. The working directory of the run is the script's own, a constant of the run.
\<close>

definition add_track ::
  "pystr \<Rightarrow> ('w \<Rightarrow> pystr list \<Rightarrow> outcome \<times> 'w) \<Rightarrow> 'w \<Rightarrow> pystr \<Rightarrow> pystr \<Rightarrow> event list \<times> 'w" where
  "add_track exe sh w module_id zip_filename =
     (let cmd = track_cmd exe module_id zip_filename;
          (res, w') = sh w cmd
      in ([Print (ustr ''Executing: '' @ join (ustr '' '') cmd), Run cmd] @
          (case res of
             Exited returncode stdout stderr \<Rightarrow>
               if returncode = 0 then
                 [Print (ustr ''Successfully added track for '' @ module_id)] @
                 (if strip stdout \<noteq> [] then [Print (ustr ''Output: '' @ strip stdout)] else [])
               else
                 [Print (ustr ''Failed to add track for '' @ module_id)] @
                 (if strip stderr \<noteq> [] then [Print (ustr ''Error: '' @ strip stderr)] else []) @
                 (if strip stdout \<noteq> [] then [Print (ustr ''Output: '' @ strip stdout)] else [])
           | Failed e \<Rightarrow>
               [Print (ustr ''Error executing command for '' @ module_id @ ustr '': '' @ str_exn e)]),
          w'))"

section \<open>The directory scan\<close>

text \<open>
  A directory is the list of its entries in the order the file system enumerates them,
  each a name with what opening it as an archive gives.
\<close>

type_synonym directory = "(pystr \<times> zfile) list"

text \<open>
  Matching one name against a pattern in which \<open>*\<close> stands for any run of characters
  and \<open>?\<close> for any one character; every other character stands for itself, as written
  (the script runs under POSIX, where \<open>pathlib\<close> compares names case-sensitively).
  Bracket expressions are left out: the one pattern used has none.
\<close>

fun wildcard_match :: "pystr \<Rightarrow> pystr \<Rightarrow> bool" where
  "wildcard_match [] s = (s = [])"
| "wildcard_match (p # ps) [] = (p = 42 \<and> wildcard_match ps [])"
| "wildcard_match (p # ps) (c # cs) =
     (if p = 42 then wildcard_match ps (c # cs) \<or> wildcard_match (p # ps) cs
      else (p = 63 \<or> p = c) \<and> wildcard_match ps cs)"

text \<open>\<open>list(local_dir.glob(pattern))\<close>: the entries whose names match, in directory order.\<close>

definition glob :: "pystr \<Rightarrow> directory \<Rightarrow> directory" where
  "glob pattern entries = filter (\<lambda>(name, f). wildcard_match pattern name) entries"

section \<open>main\<close>

text \<open>
  The body of the \<open>for\<close> loop (source lines 107 to 116) for one file, from the state
  outside and the count so far: the events, the state outside and the count after it.
  \<open>if module_id\<close> holds for a string that is not empty.
\<close>

definition process_zip ::
  "pystr \<Rightarrow> ('w \<Rightarrow> pystr list \<Rightarrow> outcome \<times> 'w) \<Rightarrow> pystr \<times> zfile \<Rightarrow> 'w \<Rightarrow> int
     \<Rightarrow> event list \<times> 'w \<times> int" where
  "process_zip exe sh zip_file w added_count =
     (let name = fst zip_file;
          (out1, module_id) = extract_module_id name (snd zip_file);
          skip = ([Print (10 # ustr ''Processing '' @ name @ ustr ''...'')] @ out1 @
                  [Print (ustr ''Skipping '' @ name @ ustr '' - could not extract module ID'')],
                  w, added_count)
      in case module_id of
           None \<Rightarrow> skip
         | Some i \<Rightarrow>
             if i \<noteq> [] then
               (let (out2, w') = add_track exe sh w i name
                in ([Print (10 # ustr ''Processing '' @ name @ ustr ''...'')] @ out1 @
                    [Print (ustr ''Found module ID: '' @ i)] @ out2,
                    w', added_count + 1))
             else skip)"

fun main_loop ::
  "pystr \<Rightarrow> ('w \<Rightarrow> pystr list \<Rightarrow> outcome \<times> 'w) \<Rightarrow> directory \<Rightarrow> 'w \<Rightarrow> int
     \<Rightarrow> event list \<times> 'w \<times> int" where
  "main_loop exe sh [] w added_count = ([], w, added_count)"
| "main_loop exe sh (zip_file # rest) w added_count =
     (let (out1, w1, added1) = process_zip exe sh zip_file w added_count;
          (out2, w2, added2) = main_loop exe sh rest w1 added1
      in (out1 @ out2, w2, added2))"

text \<open>
  \<open>main\<close>: \<open>local_dir\<close> is \<open>None\<close> when the path \<open>local\<close> does not exist, and the entries of
  the directory otherwise; a path that exists and is no directory is told apart in
  \<open>main_io\<close> below. The result is the value returned, with the events of the run and
  the state outside after it.
\<close>

definition main ::
  "pystr \<Rightarrow> ('w \<Rightarrow> pystr list \<Rightarrow> outcome \<times> 'w) \<Rightarrow> 'w \<Rightarrow> directory option
     \<Rightarrow> int \<times> event list \<times> 'w" where
  "main exe sh w local_dir =
     (case local_dir of
        None \<Rightarrow> (1, [Print (ustr ''Error: local/ directory does not exist'')], w)
      | Some entries \<Rightarrow>
          (let zip_files = glob (ustr ''*.zip'') entries in
           if zip_files = [] then
             (0, [Print (ustr ''No .zip files found in local/ directory'')], w)
           else
             (let (out, w', added_count) = main_loop exe sh zip_files w 0
              in (0,
                  [Print (ustr ''Found '' @ str_int (int (length zip_files)) @
                          ustr '' zip files in local/ directory'')] @ out @
                  [Print (10 # ustr ''Processed '' @ str_int (int (length zip_files)) @
                          ustr '' files, added '' @ str_int added_count @ ustr '' tracks'')] @
                  (if added_count > 0 then
                     [Print (10 # ustr ''To sync the modules, run: python cli.py sync''),
                      Print (ustr ''To generate the index, run: python cli.py index'')]
                   else []),
                  w'))))"

section \<open>The script on a console that may refuse a line\<close>

text \<open>
  \<open>print\<close> writes to the console, and the write can raise: a file name that is not
  UTF-8 reaches the script with surrogate code points, which a strict console cannot
  encode. This section gives the script with that effect. A computation starts from the
  state outside and the events so far, and ends with an exception raised or a value
  returned, and with the state and the events after it.
\<close>

type_synonym 'w io_state = "'w \<times> event list"
type_synonym ('w, 'a) io = "'w io_state \<Rightarrow> (exn + 'a) \<times> 'w io_state"

text \<open>
  \<open>return\<close>, \<open>raise\<close>, one statement after another (with and without the value of the
  first), and \<open>try\<close> with the handler of \<open>except Exception as e\<close>.
\<close>

definition io_return :: "'a \<Rightarrow> ('w, 'a) io" where
  "io_return x s = (Inr x, s)"

definition io_raise :: "exn \<Rightarrow> ('w, 'a) io" where
  "io_raise e s = (Inl e, s)"

definition io_bind :: "('w, 'a) io \<Rightarrow> ('a \<Rightarrow> ('w, 'b) io) \<Rightarrow> ('w, 'b) io" where
  "io_bind m k s = (case m s of (Inl e, s') \<Rightarrow> (Inl e, s') | (Inr x, s') \<Rightarrow> k x s')"

definition io_seq :: "('w, 'a) io \<Rightarrow> ('w, 'b) io \<Rightarrow> ('w, 'b) io" where
  "io_seq m n = io_bind m (\<lambda>_. n)"

definition io_try :: "('w, 'a) io \<Rightarrow> (exn \<Rightarrow> ('w, 'a) io) \<Rightarrow> ('w, 'a) io" where
  "io_try m h s = (case m s of (Inl e, s') \<Rightarrow> h e s' | (Inr x, s') \<Rightarrow> (Inr x, s'))"

definition io_event :: "event \<Rightarrow> ('w, unit) io" where
  "io_event ev s = (Inr (), (fst s, snd s @ [ev]))"

text \<open>
  \<open>print(line)\<close> on the console \<open>pr\<close>: from the state outside and the line, the console
  takes the line or raises, and gives the state after it. A line that was taken is an
  event. \<open>subprocess.run\<close> is an event whatever its outcome; an exception of it is
  raised where the call stands.
\<close>

definition py_print :: "('w \<Rightarrow> pystr \<Rightarrow> exn option \<times> 'w) \<Rightarrow> pystr \<Rightarrow> ('w, unit) io" where
  "py_print pr text s =
     (case pr (fst s) text of
        (None, w') \<Rightarrow> (Inr (), (w', snd s @ [Print text]))
      | (Some e, w') \<Rightarrow> (Inl e, (w', snd s)))"

definition run_process ::
  "('w \<Rightarrow> pystr list \<Rightarrow> outcome \<times> 'w) \<Rightarrow> pystr list \<Rightarrow> ('w, int \<times> pystr \<times> pystr) io" where
  "run_process sh cmd s =
     (case sh (fst s) cmd of
        (Exited returncode stdout stderr, w') \<Rightarrow>
          (Inr (returncode, stdout, stderr), (w', snd s @ [Run cmd]))
      | (Failed e, w') \<Rightarrow> (Inl e, (w', snd s @ [Run cmd])))"

text \<open>
  \<open>extract_module_id\<close> (source lines 23 to 51): the body of the \<open>try\<close>, whose three
  warnings are printed inside it, and the handler, whose own \<open>print\<close> stands outside
  any \<open>try\<close>.
\<close>

definition extract_try_io ::
  "('w \<Rightarrow> pystr \<Rightarrow> exn option \<times> 'w) \<Rightarrow> pystr \<Rightarrow> zfile \<Rightarrow> ('w, pystr option) io" where
  "extract_try_io pr name f =
     io_seq (io_event (Open name))
       (case f of
          Unopenable e \<Rightarrow> io_raise e
        | Archive ms \<Rightarrow>
            if updater_script \<notin> set (namelist ms) \<or> update_binary \<notin> set (namelist ms) then
              io_seq
                (py_print pr (ustr ''Warning: '' @ name @
                   ustr '' is not a valid Magisk module (missing updater-script or update-binary)''))
                (io_return None)
            else if module_prop \<notin> set (namelist ms) then
              io_seq
                (py_print pr (ustr ''Warning: '' @ name @ ustr '' does not contain module.prop''))
                (io_return None)
            else
              (case zip_read ms module_prop of
                 Inl e \<Rightarrow> io_raise e
               | Inr (Raises e) \<Rightarrow> io_raise e
               | Inr (Text t) \<Rightarrow>
                   (case find_id (splitlines t) of
                      Inl e \<Rightarrow> io_raise e
                    | Inr (Some module_id) \<Rightarrow> io_return (Some module_id)
                    | Inr None \<Rightarrow>
                        io_seq
                          (py_print pr (ustr ''Warning: Could not find '' @ [39] @ ustr ''id='' @
                             [39] @ ustr '' in module.prop of '' @ name))
                          (io_return None))))"

definition extract_module_id_io ::
  "('w \<Rightarrow> pystr \<Rightarrow> exn option \<times> 'w) \<Rightarrow> pystr \<Rightarrow> zfile \<Rightarrow> ('w, pystr option) io" where
  "extract_module_id_io pr name f =
     io_try (extract_try_io pr name f)
       (\<lambda>e. io_seq
              (py_print pr (ustr ''Error reading '' @ name @ ustr '': '' @ str_exn e))
              (io_return None))"

text \<open>
  \<open>add_track\<close> (source lines 61 to 85): the line \<open>Executing\<close> is printed before the
  \<open>try\<close>; the run and the lines on its outcome are inside it; the handler prints.
\<close>

definition add_track_io ::
  "('w \<Rightarrow> pystr \<Rightarrow> exn option \<times> 'w) \<Rightarrow> pystr \<Rightarrow> ('w \<Rightarrow> pystr list \<Rightarrow> outcome \<times> 'w)
     \<Rightarrow> pystr \<Rightarrow> pystr \<Rightarrow> ('w, unit) io" where
  "add_track_io pr exe sh module_id zip_filename =
     (let cmd = track_cmd exe module_id zip_filename in
      io_seq (py_print pr (ustr ''Executing: '' @ join (ustr '' '') cmd))
        (io_try
           (io_bind (run_process sh cmd)
              (\<lambda>(returncode, stdout, stderr).
                 if returncode = 0 then
                   io_seq (py_print pr (ustr ''Successfully added track for '' @ module_id))
                     (if strip stdout \<noteq> [] then py_print pr (ustr ''Output: '' @ strip stdout)
                      else io_return ())
                 else
                   io_seq (py_print pr (ustr ''Failed to add track for '' @ module_id))
                     (io_seq
                        (if strip stderr \<noteq> [] then py_print pr (ustr ''Error: '' @ strip stderr)
                         else io_return ())
                        (if strip stdout \<noteq> [] then py_print pr (ustr ''Output: '' @ strip stdout)
                         else io_return ()))))
           (\<lambda>e. py_print pr
                  (ustr ''Error executing command for '' @ module_id @ ustr '': '' @ str_exn e))))"

text \<open>
  The body of the \<open>for\<close> loop and the loop (source lines 106 to 116); none of their
  prints is inside a \<open>try\<close>.
\<close>

definition process_zip_io ::
  "('w \<Rightarrow> pystr \<Rightarrow> exn option \<times> 'w) \<Rightarrow> pystr \<Rightarrow> ('w \<Rightarrow> pystr list \<Rightarrow> outcome \<times> 'w)
     \<Rightarrow> pystr \<times> zfile \<Rightarrow> int \<Rightarrow> ('w, int) io" where
  "process_zip_io pr exe sh zip_file added_count =
     (let name = fst zip_file;
          skip = io_seq
                   (py_print pr (ustr ''Skipping '' @ name @ ustr '' - could not extract module ID''))
                   (io_return added_count)
      in io_seq (py_print pr (10 # ustr ''Processing '' @ name @ ustr ''...''))
           (io_bind (extract_module_id_io pr name (snd zip_file))
              (\<lambda>module_id.
                 case module_id of
                   None \<Rightarrow> skip
                 | Some i \<Rightarrow>
                     if i \<noteq> [] then
                       io_seq (py_print pr (ustr ''Found module ID: '' @ i))
                         (io_seq (add_track_io pr exe sh i name)
                            (io_return (added_count + 1)))
                     else skip)))"

fun main_loop_io ::
  "('w \<Rightarrow> pystr \<Rightarrow> exn option \<times> 'w) \<Rightarrow> pystr \<Rightarrow> ('w \<Rightarrow> pystr list \<Rightarrow> outcome \<times> 'w)
     \<Rightarrow> directory \<Rightarrow> int \<Rightarrow> ('w, int) io" where
  "main_loop_io pr exe sh [] added_count = io_return added_count"
| "main_loop_io pr exe sh (zip_file # rest) added_count =
     io_bind (process_zip_io pr exe sh zip_file added_count) (main_loop_io pr exe sh rest)"

text \<open>
  The path \<open>local\<close>: it does not exist, it exists and is no directory, or it is a
  directory with its entries. \<open>exists()\<close> holds in the last two cases, and \<open>glob\<close>
  lists nothing for a path that is no directory.
\<close>

datatype local_path = Absent | Not_a_directory | Dir directory

definition local_glob :: "pystr \<Rightarrow> local_path \<Rightarrow> directory" where
  "local_glob pattern p = (case p of Dir entries \<Rightarrow> glob pattern entries | _ \<Rightarrow> [])"

definition path_of :: "directory option \<Rightarrow> local_path" where
  "path_of d = (case d of None \<Rightarrow> Absent | Some entries \<Rightarrow> Dir entries)"

text \<open>
  \<open>main\<close> (source lines 87 to 124), and the exit status that
  \<open>sys.exit(main())\<close> gives the process: the value returned, or 1 when an exception
  leaves \<open>main\<close>.
\<close>

definition main_io ::
  "('w \<Rightarrow> pystr \<Rightarrow> exn option \<times> 'w) \<Rightarrow> pystr \<Rightarrow> ('w \<Rightarrow> pystr list \<Rightarrow> outcome \<times> 'w)
     \<Rightarrow> local_path \<Rightarrow> ('w, int) io" where
  "main_io pr exe sh local_dir =
     (if local_dir = Absent then
        io_seq (py_print pr (ustr ''Error: local/ directory does not exist'')) (io_return 1)
      else
        (let zip_files = local_glob (ustr ''*.zip'') local_dir in
         if zip_files = [] then
           io_seq (py_print pr (ustr ''No .zip files found in local/ directory'')) (io_return 0)
         else
           io_seq
             (py_print pr (ustr ''Found '' @ str_int (int (length zip_files)) @
                ustr '' zip files in local/ directory''))
             (io_bind (main_loop_io pr exe sh zip_files 0)
                (\<lambda>added_count.
                   io_seq
                     (py_print pr (10 # ustr ''Processed '' @ str_int (int (length zip_files)) @
                        ustr '' files, added '' @ str_int added_count @ ustr '' tracks''))
                     (io_seq
                        (if added_count > 0 then
                           io_seq
                             (py_print pr (10 # ustr ''To sync the modules, run: python cli.py sync''))
                             (py_print pr (ustr ''To generate the index, run: python cli.py index''))
                         else io_return ())
                        (io_return 0))))))"


text \<open>A computation that raises from no state.\<close>

definition io_total :: "('w, 'a) io \<Rightarrow> bool" where
  "io_total m \<longleftrightarrow> (\<forall>s. \<exists>x s'. m s = (Inr x, s'))"

section \<open>Observations on a run\<close>

text \<open>
  The argument vectors of the external commands run, in order; the archives opened, in
  order; the commands run for one archive, recognised by their \<open>update_to=\<close> argument;
  and the files of a list that yield an identifier, each with it.
\<close>

primrec runs :: "event list \<Rightarrow> pystr list list" where
  "runs [] = []"
| "runs (e # es) = (case e of Run cmd \<Rightarrow> cmd # runs es | _ \<Rightarrow> runs es)"

primrec opens :: "event list \<Rightarrow> pystr list" where
  "opens [] = []"
| "opens (e # es) = (case e of Open name \<Rightarrow> name # opens es | _ \<Rightarrow> opens es)"

definition runs_for :: "pystr \<Rightarrow> event list \<Rightarrow> pystr list list" where
  "runs_for name trace =
     filter (\<lambda>cmd. length cmd = 7 \<and> cmd ! 5 = ustr ''update_to='' @ name) (runs trace)"

definition registered :: "directory \<Rightarrow> (pystr \<times> pystr) list" where
  "registered zs =
     concat (map (\<lambda>(name, f). case snd (extract_module_id name f) of
                                  None \<Rightarrow> [] | Some i \<Rightarrow> [(name, i)]) zs)"


section \<open>Sample inputs\<close>

text \<open>
  An external tool that exits with a given return code and prints nothing; the state
  outside is the number of times it has run. And an archive holding both marker entries
  and a \<open>module.prop\<close> of a given text.
\<close>

definition counting_tool :: "int \<Rightarrow> nat \<Rightarrow> pystr list \<Rightarrow> outcome \<times> nat" where
  "counting_tool returncode w cmd = (Exited returncode [] [], Suc w)"

definition module_zip :: "pystr \<Rightarrow> zfile" where
  "module_zip prop =
     Archive [(updater_script, Text []), (update_binary, Text []), (module_prop, Text prop)]"

text \<open>
  A console that takes every line, and a console that raises on a line holding a
  surrogate code point, as a strict UTF-8 console does; neither changes the state
  outside.
\<close>

definition quiet_console :: "'w \<Rightarrow> pystr \<Rightarrow> exn option \<times> 'w" where
  "quiet_console w text = (None, w)"


section \<open>The identifier in the words of the specification\<close>

text \<open>
  The specification's sentence on the identifier, read on its own: the lines are
  trimmed, and the first line that begins with \<open>id=\<close> gives the identifier, the text
  after its first \<open>=\<close>, trimmed. \<open>None\<close> stands for no such line.
\<close>

definition claimed_module_id :: "pystr \<Rightarrow> pystr option" where
  "claimed_module_id t =
     map_option (\<lambda>l. strip (tl (dropWhile (\<lambda>c. c \<noteq> 61) l)))
       (List.find (startswith (ustr ''id='')) (map strip (splitlines t)))"

section \<open>Strings and matching\<close>

lemma ustr_Nil: "ustr [] = []"
  by (simp add: ustr_def)

lemma ustr_Cons: "ustr (c # cs) = of_char c # ustr cs"
  by (simp add: ustr_def)

lemmas ustr_simps = ustr_Nil ustr_Cons

lemma startswith_iff: "startswith p s \<longleftrightarrow> (\<exists>v. s = p @ v)"
  by (induction p s rule: startswith.induct) auto

lemma split1_id:
  assumes "startswith (ustr ''id='') line"
  shows "split1 61 line = [ustr ''id'', drop 3 line]"
proof -
  from assms obtain v where "line = ustr ''id='' @ v" by (auto simp: startswith_iff)
  then show ?thesis by (simp add: split1_def ustr_simps)
qed

lemma find_id_eq:
  "find_id ls = Inr (map_option (\<lambda>l. strip (drop 3 l))
      (List.find (\<lambda>l. startswith (ustr ''id='') l \<and> strip (drop 3 l) \<noteq> []) (map strip ls)))"
  by (induction ls) (simp_all add: split1_id Let_def)

lemma literal_match:
  "\<forall>c \<in> set p. c \<noteq> 42 \<and> c \<noteq> 63 \<Longrightarrow> wildcard_match p s \<longleftrightarrow> s = p"
proof (induction p arbitrary: s)
  case Nil
  show ?case by simp
next
  case (Cons a p)
  then show ?case by (cases s) auto
qed

lemma star_literal_match:
  assumes "\<forall>c \<in> set p. c \<noteq> 42 \<and> c \<noteq> 63"
  shows "wildcard_match (42 # p) s \<longleftrightarrow> suffix p s"
proof (induction s)
  case Nil
  show ?case using literal_match [OF assms, of "[]"] by auto
next
  case (Cons c cs)
  show ?case using literal_match [OF assms, of "c # cs"] Cons by (auto simp: suffix_Cons)
qed

lemma wild_zip: "wildcard_match (ustr ''*.zip'') s \<longleftrightarrow> suffix (ustr ''.zip'') s"
proof -
  have "\<forall>c \<in> set (ustr ''.zip''). c \<noteq> 42 \<and> c \<noteq> 63" by (simp add: ustr_simps)
  from star_literal_match [OF this] show ?thesis by (simp add: ustr_simps)
qed

section \<open>Events of the functions\<close>

lemma runs_append [simp]: "runs (xs @ ys) = runs xs @ runs ys"
  by (induction xs) (simp_all split: event.splits)

lemma opens_append [simp]: "opens (xs @ ys) = opens xs @ opens ys"
  by (induction xs) (simp_all split: event.splits)

lemma find_id_nonempty: "find_id ls = Inr (Some i) \<Longrightarrow> i \<noteq> []"
  by (auto simp: find_id_eq dest: find_Some_iff [THEN iffD1])

lemma find_id_no_raise: "find_id ls \<noteq> Inl e"
  by (simp add: find_id_eq)

lemma extract_try_events:
  "runs (fst (extract_try name f)) = [] \<and> opens (fst (extract_try name f)) = []"
  by (simp add: extract_try_def split: zfile.splits sum.splits member.splits option.splits)

lemma extract_events:
  "runs (fst (extract_module_id name f)) = []" "opens (fst (extract_module_id name f)) = [name]"
  using extract_try_events [of name f]
  by (auto simp: extract_module_id_def split: prod.splits sum.splits)

lemma extract_nonempty: "snd (extract_module_id name f) = Some i \<Longrightarrow> i \<noteq> []"
  by (auto simp: extract_module_id_def extract_try_def find_id_nonempty
      split: prod.splits sum.splits zfile.splits member.splits option.splits if_splits)

lemma add_track_events:
  "runs (fst (add_track exe sh w i name)) = [track_cmd exe i name]"
  "opens (fst (add_track exe sh w i name)) = []"
  by (simp_all add: add_track_def Let_def split: prod.splits outcome.splits)

lemma registered_single:
  "registered [(name, f)] =
     (case snd (extract_module_id name f) of None \<Rightarrow> [] | Some i \<Rightarrow> [(name, i)])"
  by (simp add: registered_def)

lemma process_zip_skip:
  assumes "snd (extract_module_id name f) = None"
  shows "process_zip exe sh (name, f) w n =
           ([Print (10 # ustr ''Processing '' @ name @ ustr ''...'')] @
            fst (extract_module_id name f) @
            [Print (ustr ''Skipping '' @ name @ ustr '' - could not extract module ID'')], w, n)"
  using assms by (cases "extract_module_id name f") (simp add: process_zip_def)

lemma process_zip_add:
  assumes "snd (extract_module_id name f) = Some i"
  shows "process_zip exe sh (name, f) w n =
           ([Print (10 # ustr ''Processing '' @ name @ ustr ''...'')] @
            fst (extract_module_id name f) @
            [Print (ustr ''Found module ID: '' @ i)] @ fst (add_track exe sh w i name),
            snd (add_track exe sh w i name), n + 1)"
  using assms extract_nonempty [OF assms]
  by (cases "extract_module_id name f"; cases "add_track exe sh w i name")
     (simp add: process_zip_def)

lemma process_zip_events:
  "runs (fst (process_zip exe sh (name, f) w n)) =
     map (\<lambda>(nm, i). track_cmd exe i nm) (registered [(name, f)])"
  "opens (fst (process_zip exe sh (name, f) w n)) = [name]"
  "snd (snd (process_zip exe sh (name, f) w n)) = n + int (length (registered [(name, f)]))"
  by (cases "snd (extract_module_id name f)";
      simp add: process_zip_skip process_zip_add registered_single extract_events add_track_events)+

lemma registered_Cons: "registered (z # zs) = registered [z] @ registered zs"
  by (simp add: registered_def)

lemma main_loop_events_all:
  "runs (fst (main_loop exe sh zs w n)) = map (\<lambda>(nm, i). track_cmd exe i nm) (registered zs) \<and>
   opens (fst (main_loop exe sh zs w n)) = map fst zs \<and>
   snd (snd (main_loop exe sh zs w n)) = n + int (length (registered zs))"
proof (induction zs arbitrary: w n)
  case Nil
  show ?case by (simp add: registered_def)
next
  case (Cons z zs w n)
  obtain name f where z: "z = (name, f)" by (cases z)
  obtain o1 w1 n1 where p: "process_zip exe sh (name, f) w n = (o1, w1, n1)"
    by (cases "process_zip exe sh (name, f) w n")
  obtain o2 w2 n2 where m: "main_loop exe sh zs w1 n1 = (o2, w2, n2)"
    by (cases "main_loop exe sh zs w1 n1")
  have step: "main_loop exe sh ((name, f) # zs) w n = (o1 @ o2, w2, n2)"
    by (simp add: p m)
  note pe = process_zip_events [of exe sh name f w n, unfolded p, simplified]
  note me = Cons.IH [of w1 n1, unfolded m, simplified]
  note rc = registered_Cons [of "(name, f)" zs]
  show ?case unfolding z step using pe me by (simp add: rc)
qed

lemmas main_loop_events = main_loop_events_all [THEN conjunct1]
  main_loop_events_all [THEN conjunct2, THEN conjunct1]
  main_loop_events_all [THEN conjunct2, THEN conjunct2]

section \<open>The extractor and the run, case by case\<close>

lemma zip_read_present:
  "nm \<in> set (namelist ms) \<Longrightarrow> \<exists>m. zip_read ms nm = Inr m"
  by (cases "map_of (rev ms) nm")
     (auto simp: zip_read_def namelist_def map_of_eq_None_iff)

lemma zip_read_Inr: "zip_read ms nm = Inr m \<Longrightarrow> nm \<in> set (namelist ms)"
  by (force simp: zip_read_def namelist_def split: option.splits dest!: map_of_SomeD)

lemma extract_unopenable:
  "extract_module_id name (Unopenable e) =
     ([Open name, Print (ustr ''Error reading '' @ name @ ustr '': '' @ str_exn e)], None)"
  by (simp add: extract_module_id_def extract_try_def)

lemma extract_no_markers:
  assumes "updater_script \<notin> set (namelist ms) \<or> update_binary \<notin> set (namelist ms)"
  shows "extract_module_id name (Archive ms) =
     ([Open name, Print (ustr ''Warning: '' @ name @
         ustr '' is not a valid Magisk module (missing updater-script or update-binary)'')], None)"
  using assms by (auto simp add: extract_module_id_def extract_try_def)

lemma extract_no_prop:
  assumes "updater_script \<in> set (namelist ms)" "update_binary \<in> set (namelist ms)"
      and "module_prop \<notin> set (namelist ms)"
  shows "extract_module_id name (Archive ms) =
     ([Open name, Print (ustr ''Warning: '' @ name @ ustr '' does not contain module.prop'')], None)"
  using assms by (simp add: extract_module_id_def extract_try_def)

lemma extract_raises:
  assumes "updater_script \<in> set (namelist ms)" "update_binary \<in> set (namelist ms)"
      and "zip_read ms module_prop = Inr (Raises e)"
  shows "extract_module_id name (Archive ms) =
     ([Open name, Print (ustr ''Error reading '' @ name @ ustr '': '' @ str_exn e)], None)"
  using assms zip_read_Inr [OF assms(3)] by (simp add: extract_module_id_def extract_try_def)

lemma extract_text:
  assumes "updater_script \<in> set (namelist ms)" "update_binary \<in> set (namelist ms)"
      and "zip_read ms module_prop = Inr (Text t)"
  shows "extract_module_id name (Archive ms) =
     (case List.find (\<lambda>l. startswith (ustr ''id='') l \<and> strip (drop 3 l) \<noteq> [])
             (map strip (splitlines t)) of
        Some l \<Rightarrow> ([Open name], Some (strip (drop 3 l)))
      | None \<Rightarrow> ([Open name, Print (ustr ''Warning: Could not find '' @ [39] @ ustr ''id='' @ [39] @
                          ustr '' in module.prop of '' @ name)], None))"
  using assms zip_read_Inr [OF assms(3)]
  by (simp add: extract_module_id_def extract_try_def find_id_eq split: option.splits)

lemma extract_Some:
  assumes "snd (extract_module_id name f) = Some i"
  shows "\<exists>ms t l. f = Archive ms \<and> updater_script \<in> set (namelist ms) \<and>
           update_binary \<in> set (namelist ms) \<and> zip_read ms module_prop = Inr (Text t) \<and>
           List.find (\<lambda>l. startswith (ustr ''id='') l \<and> strip (drop 3 l) \<noteq> [])
             (map strip (splitlines t)) = Some l \<and> i = strip (drop 3 l)"
proof (cases f)
  case (Unopenable e)
  with assms show ?thesis by (simp add: extract_unopenable)
next
  case (Archive ms)
  show ?thesis
  proof (cases "updater_script \<in> set (namelist ms) \<and> update_binary \<in> set (namelist ms)")
    case False
    with assms Archive show ?thesis by (simp add: extract_no_markers)
  next
    case markers: True
    show ?thesis
    proof (cases "module_prop \<in> set (namelist ms)")
      case False
      with assms Archive markers show ?thesis by (simp add: extract_no_prop)
    next
      case True
      then obtain m where m: "zip_read ms module_prop = Inr m"
        using zip_read_present by blast
      show ?thesis
      proof (cases m)
        case (Raises e)
        with assms Archive markers m show ?thesis by (simp add: extract_raises)
      next
        case (Text t)
        with assms Archive markers m show ?thesis
          by (auto simp: extract_text split: option.splits)
      qed
    qed
  qed
qed

lemma main_missing:
  "main exe sh w None = (1, [Print (ustr ''Error: local/ directory does not exist'')], w)"
  by (simp add: main_def)

lemma main_no_zip:
  "glob (ustr ''*.zip'') entries = [] \<Longrightarrow>
   main exe sh w (Some entries) = (0, [Print (ustr ''No .zip files found in local/ directory'')], w)"
  by (simp add: main_def)

lemma main_zips:
  assumes "glob (ustr ''*.zip'') entries = zs" "zs \<noteq> []"
  shows "main exe sh w (Some entries) =
    (0,
     [Print (ustr ''Found '' @ str_int (int (length zs)) @ ustr '' zip files in local/ directory'')] @
     fst (main_loop exe sh zs w 0) @
     [Print (10 # ustr ''Processed '' @ str_int (int (length zs)) @ ustr '' files, added '' @
             str_int (int (length (registered zs))) @ ustr '' tracks'')] @
     (if registered zs \<noteq> [] then
        [Print (10 # ustr ''To sync the modules, run: python cli.py sync''),
         Print (ustr ''To generate the index, run: python cli.py index'')]
      else []),
     fst (snd (main_loop exe sh zs w 0)))"
  using assms main_loop_events(3) [of exe sh zs w 0]
  by (cases "main_loop exe sh zs w 0") (simp add: main_def Let_def)

lemma main_status: "fst (main exe sh w d) = (if d = None then 1 else 0)"
  by (cases d; cases "main_loop exe sh (glob (ustr ''*.zip'') (the d)) w 0")
     (simp_all add: main_def Let_def)

lemma runs_main:
  "runs (fst (snd (main exe sh w (Some entries)))) =
     map (\<lambda>(nm, i). track_cmd exe i nm) (registered (glob (ustr ''*.zip'') entries))"
proof (cases "glob (ustr ''*.zip'') entries = []")
  case True
  then show ?thesis by (simp add: main_no_zip registered_def)
next
  case False
  then show ?thesis by (simp add: main_zips [OF refl False] main_loop_events)
qed

lemma opens_main:
  "opens (fst (snd (main exe sh w (Some entries)))) = map fst (glob (ustr ''*.zip'') entries)"
proof (cases "glob (ustr ''*.zip'') entries = []")
  case True
  then show ?thesis by (simp add: main_no_zip)
next
  case False
  then show ?thesis by (simp add: main_zips [OF refl False] main_loop_events)
qed

lemma glob_zip:
  "glob (ustr ''*.zip'') entries = filter (\<lambda>(name, f). suffix (ustr ''.zip'') name) entries"
  by (simp add: glob_def wild_zip)

section \<open>The commands run for one archive\<close>

lemma registered_Nil: "registered [] = []"
  by (simp add: registered_def)

lemma registered_pair:
  "registered ((nm, g) # zs) =
     (case snd (extract_module_id nm g) of None \<Rightarrow> [] | Some i \<Rightarrow> [(nm, i)]) @ registered zs"
  by (simp add: registered_def)


lemma registered_absent:
  "name \<notin> fst ` set zs \<Longrightarrow> filter (\<lambda>(nm, i). nm = name) (registered zs) = []"
  by (induction zs) (auto simp: registered_def split: option.splits)

lemma registered_distinct:
  "distinct (map fst zs) \<Longrightarrow> (name, f) \<in> set zs \<Longrightarrow>
   filter (\<lambda>(nm, i). nm = name) (registered zs) = registered [(name, f)]"
proof (induction zs)
  case Nil
  then show ?case by simp
next
  case (Cons z zs)
  obtain nm g where z: "z = (nm, g)" by (cases z)
  show ?case
  proof (cases "nm = name")
    case True
    with Cons.prems z have "g = f" and "name \<notin> fst ` set zs" by force+
    with True z registered_absent [of name zs] show ?thesis
      by (simp add: registered_pair registered_Nil split: option.splits)
  next
    case False
    with Cons z show ?thesis
      by (simp add: registered_pair registered_Nil split: option.splits)
  qed
qed

lemma runs_for_track:
  "filter (\<lambda>cmd. length cmd = 7 \<and> cmd ! 5 = ustr ''update_to='' @ name)
     (map (\<lambda>(nm, i). track_cmd exe i nm) rs) =
   map (\<lambda>(nm, i). track_cmd exe i nm) (filter (\<lambda>(nm, i). nm = name) rs)"
  by (induction rs) (auto simp: track_cmd_def)

lemma runs_for_main:
  "runs_for name (fst (snd (main exe sh w (Some entries)))) =
     map (\<lambda>(nm, i). track_cmd exe i nm)
       (filter (\<lambda>(nm, i). nm = name) (registered (glob (ustr ''*.zip'') entries)))"
  by (simp add: runs_for_def runs_main runs_for_track)

lemma glob_distinct: "distinct (map fst entries) \<Longrightarrow> distinct (map fst (glob p entries))"
  by (simp add: glob_def distinct_map_filter)

lemma runs_for_entry:
  assumes "distinct (map fst entries)" "(name, f) \<in> set entries"
  shows "runs_for name (fst (snd (main exe sh w (Some entries)))) =
     (if suffix (ustr ''.zip'') name
      then case snd (extract_module_id name f) of None \<Rightarrow> [] | Some i \<Rightarrow> [track_cmd exe i name]
      else [])"
proof (cases "suffix (ustr ''.zip'') name")
  case True
  with assms(2) have "(name, f) \<in> set (glob (ustr ''*.zip'') entries)"
    by (simp add: glob_zip)
  from registered_distinct [OF glob_distinct [OF assms(1)] this] True show ?thesis
    by (simp add: runs_for_main registered_single split: option.splits)
next
  case False
  then have "name \<notin> fst ` set (glob (ustr ''*.zip'') entries)"
    by (auto simp: glob_zip)
  from registered_absent [OF this] False show ?thesis
    by (simp add: runs_for_main)
qed

lemma runs_for_unlisted:
  assumes "\<not> suffix (ustr ''.zip'') name"
  shows "runs_for name (fst (snd (main exe sh w (Some entries)))) = []"
proof -
  from assms have "name \<notin> fst ` set (glob (ustr ''*.zip'') entries)"
    by (auto simp: glob_zip)
  from registered_absent [OF this] show ?thesis
    by (simp add: runs_for_main)
qed

section \<open>Searching lines, and evaluating the sample inputs\<close>

lemmas sample_simps = ustr_simps namelist_def updater_script_def update_binary_def
  module_prop_def module_zip_def counting_tool_def


lemmas text_simps = splitlines_def is_linebreak_def strip_def is_whitespace_def

lemma after_first_eq:
  assumes "startswith (ustr ''id='') l"
  shows "tl (dropWhile (\<lambda>c. c \<noteq> 61) l) = drop 3 l"
proof -
  from assms obtain v where "l = ustr ''id='' @ v" by (auto simp: startswith_iff)
  then show ?thesis by (simp add: ustr_simps)
qed

lemma find_conj_first:
  "List.find P xs = Some x \<Longrightarrow> Q x \<Longrightarrow> List.find (\<lambda>y. P y \<and> Q y) xs = Some x"
  by (induction xs) (auto split: if_splits)

lemma find_conj_none:
  "List.find P xs = None \<Longrightarrow> List.find (\<lambda>y. P y \<and> Q y) xs = None"
  by (induction xs) (auto split: if_splits)

lemma find_startswith: "List.find P xs = Some x \<Longrightarrow> P x"
  by (induction xs) (auto split: if_splits)

lemma wrong_extension:
  assumes "length ext = 4" and "ext \<noteq> ustr ''.zip''"
  shows "\<not> suffix (ustr ''.zip'') (stem @ ext)"
proof
  assume "suffix (ustr ''.zip'') (stem @ ext)"
  then obtain pre where p: "stem @ ext = pre @ ustr ''.zip''" by (auto simp: suffix_def)
  have "length (ustr ''.zip'') = 4" by (simp add: ustr_simps)
  with assms(1) p have "ext = ustr ''.zip''" by (simp add: append_eq_append_conv)
  with assms(2) show False by simp
qed

lemma find_in_set: "List.find P xs = Some x \<Longrightarrow> x \<in> set xs"
  by (induction xs) (auto split: if_splits)

lemma extract_sample:
  "snd (extract_module_id name (module_zip (ustr ''id=a''))) = Some (ustr ''a'')"
proof -
  let ?t = "ustr ''id=a''"
  let ?ms = "[(updater_script, Text []), (update_binary, Text []), (module_prop, Text ?t)]"
  have a: "updater_script \<in> set (namelist ?ms)" and b: "update_binary \<in> set (namelist ?ms)"
    by (simp_all add: sample_simps)
  have c: "zip_read ?ms module_prop = Inr (Text ?t)"
    by (simp add: sample_simps zip_read_def)
  have l: "map strip (splitlines ?t) = [?t]"
    by (simp add: ustr_simps text_simps)
  show ?thesis
    unfolding module_zip_def extract_text [OF a b c] l by (simp add: ustr_simps text_simps)
qed


section \<open>The two consoles agree\<close>

lemmas io_defs = io_return_def io_raise_def io_bind_def io_seq_def io_try_def io_event_def
  py_print_def run_process_def

lemma extract_io_quiet:
  "extract_module_id_io quiet_console name f s =
     (Inr (snd (extract_module_id name f)), (fst s, snd s @ fst (extract_module_id name f)))"
  by (simp add: extract_module_id_io_def extract_try_io_def extract_module_id_def extract_try_def
      io_defs quiet_console_def
      split: zfile.splits sum.splits member.splits option.splits)

lemma add_track_io_quiet:
  "add_track_io quiet_console exe sh i nm s =
     (Inr (), (snd (add_track exe sh (fst s) i nm), snd s @ fst (add_track exe sh (fst s) i nm)))"
  by (simp add: add_track_io_def add_track_def io_defs quiet_console_def Let_def
      split: prod.splits outcome.splits)

lemma process_zip_io_quiet:
  "process_zip_io quiet_console exe sh z n s =
     (Inr (snd (snd (process_zip exe sh z (fst s) n))),
      (fst (snd (process_zip exe sh z (fst s) n)), snd s @ fst (process_zip exe sh z (fst s) n)))"
proof (cases "snd (extract_module_id (fst z) (snd z))")
  case None
  then show ?thesis
    using process_zip_skip [of "fst z" "snd z" exe sh "fst s" n]
    by (simp add: process_zip_io_def Let_def extract_io_quiet io_bind_def io_seq_def io_return_def
        py_print_def quiet_console_def)
next
  case (Some i)
  then show ?thesis
    using process_zip_add [of "fst z" "snd z" i exe sh "fst s" n] extract_nonempty [of "fst z" "snd z" i]
    by (simp add: process_zip_io_def Let_def extract_io_quiet add_track_io_quiet io_bind_def io_seq_def
        io_return_def py_print_def quiet_console_def)
qed

lemma main_loop_io_quiet:
  "main_loop_io quiet_console exe sh zs n s =
     (Inr (snd (snd (main_loop exe sh zs (fst s) n))),
      (fst (snd (main_loop exe sh zs (fst s) n)), snd s @ fst (main_loop exe sh zs (fst s) n)))"
proof (induction zs arbitrary: n s)
  case Nil
  show ?case by (simp add: io_return_def)
next
  case (Cons z zs n s)
  obtain o1 w1 n1 where p: "process_zip exe sh z (fst s) n = (o1, w1, n1)"
    by (cases "process_zip exe sh z (fst s) n")
  obtain o2 w2 n2 where m: "main_loop exe sh zs w1 n1 = (o2, w2, n2)"
    by (cases "main_loop exe sh zs w1 n1")
  show ?case
    using Cons.IH [of n1 "(w1, snd s @ o1)"]
    by (simp add: io_bind_def process_zip_io_quiet p m)
qed

lemma main_io_quiet:
  "main_io quiet_console exe sh (path_of d) s =
     (Inr (fst (main exe sh (fst s) d)),
      (snd (snd (main exe sh (fst s) d)), snd s @ fst (snd (main exe sh (fst s) d))))"
proof (cases d)
  case None
  then show ?thesis
    by (simp add: main_io_def path_of_def main_missing io_seq_def io_bind_def io_return_def
        py_print_def quiet_console_def)
next
  case (Some entries)
  show ?thesis
  proof (cases "glob (ustr ''*.zip'') entries = []")
    case True
    with Some show ?thesis
      by (simp add: main_io_def path_of_def local_glob_def main_no_zip io_seq_def io_bind_def
          io_return_def py_print_def quiet_console_def)
  next
    case False
    obtain o1 w1 n1 where m: "main_loop exe sh (glob (ustr ''*.zip'') entries) (fst s) 0 = (o1, w1, n1)"
      by (cases "main_loop exe sh (glob (ustr ''*.zip'') entries) (fst s) 0")
    from False Some m show ?thesis
      by (simp add: main_io_def path_of_def local_glob_def main_def Let_def io_seq_def io_bind_def
          io_return_def py_print_def quiet_console_def main_loop_io_quiet)
  qed
qed

section \<open>Computations that do not raise\<close>


lemma total_event: "io_total (io_event ev)"
  by (simp add: io_total_def io_event_def)
















section \<open>The state outside after a run\<close>









section \<open>The claims\<close>







text \<open>
  Claim C5, as stated, fails: the loop passes over a line \<open>id=\<close> whose value is empty
  after trimming and goes on to later lines. For the text \<open>id=\<close>, newline, \<open>id=foo\<close> the
  first line beginning with \<open>id=\<close> has the empty value, and the extractor returns
  \<open>foo\<close>, from the second.
\<close>

theorem first_id_line_counterexample:
  "snd (extract_module_id (ustr ''a.zip'') (module_zip (ustr ''id='' @ [10] @ ustr ''id=foo'')))
     = Some (ustr ''foo'') \<and>
   claimed_module_id (ustr ''id='' @ [10] @ ustr ''id=foo'') = Some [] \<and>
   snd (extract_module_id (ustr ''a.zip'') (module_zip (ustr ''id='' @ [10] @ ustr ''id=foo'')))
     \<noteq> claimed_module_id (ustr ''id='' @ [10] @ ustr ''id=foo'')"
proof -
  let ?t = "ustr ''id='' @ [10] @ ustr ''id=foo''"
  let ?ms = "[(updater_script, Text []), (update_binary, Text []), (module_prop, Text ?t)]"
  have a: "updater_script \<in> set (namelist ?ms)" and b: "update_binary \<in> set (namelist ?ms)"
    by (simp_all add: sample_simps)
  have c: "zip_read ?ms module_prop = Inr (Text ?t)"
    by (simp add: sample_simps zip_read_def)
  have l: "map strip (splitlines ?t) = [ustr ''id='', ustr ''id=foo'']"
    by (simp add: ustr_simps text_simps)
  have "snd (extract_module_id (ustr ''a.zip'') (Archive ?ms)) = Some (ustr ''foo'')"
    unfolding extract_text [OF a b c] l by (simp add: ustr_simps text_simps)
  moreover have "claimed_module_id ?t = Some []"
    unfolding claimed_module_id_def l by (simp add: ustr_simps text_simps)
  ultimately show ?thesis by (simp add: module_zip_def ustr_simps)
qed

text \<open>
  Claim C5, amended. The text of \<open>module.prop\<close> is split into lines and each line is
  trimmed; the first line that begins with \<open>id=\<close> and whose value, the text after the
  first \<open>=\<close>, is not empty after trimming gives the identifier, that trimmed value.
  So the extractor agrees with the sentence of the specification whenever the first
  \<open>id=\<close> line has a value, and whenever no line begins with \<open>id=\<close>.
\<close>

theorem id_from_first_nonblank_line:
  assumes "updater_script \<in> set (namelist ms)" and "update_binary \<in> set (namelist ms)"
      and "zip_read ms module_prop = Inr (Text t)"
  shows "snd (extract_module_id name (Archive ms)) =
           map_option (\<lambda>l. strip (drop 3 l))
             (List.find (\<lambda>l. startswith (ustr ''id='') l \<and> strip (drop 3 l) \<noteq> [])
                (map strip (splitlines t))) \<and>
         (\<forall>v. claimed_module_id t = Some v \<and> v \<noteq> [] \<longrightarrow>
              snd (extract_module_id name (Archive ms)) = Some v) \<and>
         (claimed_module_id t = None \<longrightarrow> snd (extract_module_id name (Archive ms)) = None)"
proof (intro conjI allI impI)
  show r: "snd (extract_module_id name (Archive ms)) =
           map_option (\<lambda>l. strip (drop 3 l))
             (List.find (\<lambda>l. startswith (ustr ''id='') l \<and> strip (drop 3 l) \<noteq> [])
                (map strip (splitlines t)))"
    by (simp add: extract_text [OF assms] split: option.splits)
  {
    fix v assume "claimed_module_id t = Some v \<and> v \<noteq> []"
    then obtain l where f: "List.find (startswith (ustr ''id='')) (map strip (splitlines t)) = Some l"
      and v: "v = strip (tl (dropWhile (\<lambda>c. c \<noteq> 61) l))" and ne: "v \<noteq> []"
      by (auto simp: claimed_module_id_def)
    from find_startswith [OF f] have "startswith (ustr ''id='') l" .
    with v have v3: "v = strip (drop 3 l)" by (simp add: after_first_eq)
    with ne have "strip (drop 3 l) \<noteq> []" by simp
    from find_conj_first [OF f, of "\<lambda>l. strip (drop 3 l) \<noteq> []", OF this] v3
    show "snd (extract_module_id name (Archive ms)) = Some v" by (simp add: r)
  }
  {
    assume "claimed_module_id t = None"
    then have "List.find (startswith (ustr ''id='')) (map strip (splitlines t)) = None"
      by (simp add: claimed_module_id_def)
    from find_conj_none [OF this, of "\<lambda>l. strip (drop 3 l) \<noteq> []"]
    show "snd (extract_module_id name (Archive ms)) = None" by (simp add: r)
  }
qed

theorem id_from_first_nonblank_line_witness:
  "snd (extract_module_id (ustr ''a.zip'')
          (module_zip (ustr ''name=x'' @ [13, 10] @ ustr '' id= com.example.mod '' @ [10])))
     = Some (ustr ''com.example.mod'') \<and>
   snd (extract_module_id (ustr ''b.zip'') (module_zip (ustr ''name=x''))) = None"
proof -
  let ?t = "ustr ''name=x'' @ [13, 10] @ ustr '' id= com.example.mod '' @ [10]"
  let ?u = "ustr ''name=x''"
  let ?ms = "[(updater_script, Text []), (update_binary, Text []), (module_prop, Text ?t)]"
  let ?ns = "[(updater_script, Text []), (update_binary, Text []), (module_prop, Text ?u)]"
  have a: "updater_script \<in> set (namelist ?ms)" and b: "update_binary \<in> set (namelist ?ms)"
    and a': "updater_script \<in> set (namelist ?ns)" and b': "update_binary \<in> set (namelist ?ns)"
    by (simp_all add: sample_simps)
  have c: "zip_read ?ms module_prop = Inr (Text ?t)" and c': "zip_read ?ns module_prop = Inr (Text ?u)"
    by (simp_all add: sample_simps zip_read_def)
  have l: "map strip (splitlines ?t) = [ustr ''name=x'', ustr ''id= com.example.mod'']"
    by (simp add: ustr_simps text_simps)
  have l': "map strip (splitlines ?u) = [ustr ''name=x'']"
    by (simp add: ustr_simps text_simps)
  have v: "claimed_module_id ?t = Some (ustr ''com.example.mod'') \<and> ustr ''com.example.mod'' \<noteq> []"
    unfolding claimed_module_id_def l by (simp add: ustr_simps text_simps)
  have n: "claimed_module_id ?u = None"
    unfolding claimed_module_id_def l' by (simp add: ustr_simps)
  from id_from_first_nonblank_line [OF a b c, of "ustr ''a.zip''"] v
  have "snd (extract_module_id (ustr ''a.zip'') (Archive ?ms)) = Some (ustr ''com.example.mod'')"
    by blast
  moreover from id_from_first_nonblank_line [OF a' b' c', of "ustr ''b.zip''"] n
  have "snd (extract_module_id (ustr ''b.zip'') (Archive ?ns)) = None"
    by blast
  ultimately show ?thesis by (simp add: module_zip_def)
qed

text \<open>
  Claim C10. The scan lists exactly the entries whose names end in the lowercase
  \<open>.zip\<close>, in directory order. A name that does not end so is not listed, its file
  is never opened and no command of the run names it; such is every name whose last
  four characters are not \<open>.zip\<close>, \<open>.ZIP\<close> among them.
\<close>

theorem scanner_selects_zip_suffix:
  "glob (ustr ''*.zip'') entries =
     filter (\<lambda>(name, f). suffix (ustr ''.zip'') name) entries \<and>
   (\<not> suffix (ustr ''.zip'') name \<longrightarrow>
      name \<notin> fst ` set (glob (ustr ''*.zip'') entries) \<and>
      name \<notin> set (opens (fst (snd (main exe sh w (Some entries))))) \<and>
      runs_for name (fst (snd (main exe sh w (Some entries)))) = []) \<and>
   (length ext = 4 \<and> ext \<noteq> ustr ''.zip'' \<longrightarrow> \<not> suffix (ustr ''.zip'') (stem @ ext))"
proof (intro conjI impI)
  show "glob (ustr ''*.zip'') entries = filter (\<lambda>(name, f). suffix (ustr ''.zip'') name) entries"
    by (rule glob_zip)
next
  assume n: "\<not> suffix (ustr ''.zip'') name"
  then show g: "name \<notin> fst ` set (glob (ustr ''*.zip'') entries)"
    by (auto simp: glob_zip)
  then show "name \<notin> set (opens (fst (snd (main exe sh w (Some entries)))))"
    by (simp add: opens_main)
  from n show "runs_for name (fst (snd (main exe sh w (Some entries)))) = []"
    by (rule runs_for_unlisted)
next
  assume "length ext = 4 \<and> ext \<noteq> ustr ''.zip''"
  then show "\<not> suffix (ustr ''.zip'') (stem @ ext)"
    by (simp add: wrong_extension)
qed

theorem scanner_selects_zip_suffix_witness:
  "glob (ustr ''*.zip'')
     [(ustr ''a.zip'', module_zip (ustr ''id=a'')), (ustr ''b.ZIP'', module_zip (ustr ''id=b''))]
     = [(ustr ''a.zip'', module_zip (ustr ''id=a''))] \<and>
   ustr ''b.ZIP'' \<notin> set (opens (fst (snd (main (ustr ''python3'') (counting_tool 0) 0
      (Some [(ustr ''a.zip'', module_zip (ustr ''id=a'')),
             (ustr ''b.ZIP'', module_zip (ustr ''id=b''))]))))) \<and>
   runs_for (ustr ''b.ZIP'') (fst (snd (main (ustr ''python3'') (counting_tool 0) 0
      (Some [(ustr ''a.zip'', module_zip (ustr ''id=a'')),
             (ustr ''b.ZIP'', module_zip (ustr ''id=b''))])))) = []"
proof -
  let ?es = "[(ustr ''a.zip'', module_zip (ustr ''id=a'')), (ustr ''b.ZIP'', module_zip (ustr ''id=b''))]"
  note t = scanner_selects_zip_suffix [of ?es "ustr ''b.ZIP''" "ustr ''python3''"
      "counting_tool 0" 0 "ustr ''.ZIP''" "ustr ''b''"]
  have e: "length (ustr ''.ZIP'') = 4 \<and> ustr ''.ZIP'' \<noteq> ustr ''.zip''"
    by (simp add: ustr_simps)
  with t have n: "\<not> suffix (ustr ''.zip'') (ustr ''b'' @ ustr ''.ZIP'')"
    by blast
  have "ustr ''b'' @ ustr ''.ZIP'' = ustr ''b.ZIP''"
    by (simp add: ustr_simps)
  with n have n': "\<not> suffix (ustr ''.zip'') (ustr ''b.ZIP'')"
    by simp
  have y: "suffix (ustr ''.zip'') (ustr ''a.zip'')"
    by (simp add: ustr_simps suffix_def)
  from t have "glob (ustr ''*.zip'') ?es = filter (\<lambda>(name, f). suffix (ustr ''.zip'') name) ?es"
    by blast
  with n' y have g: "glob (ustr ''*.zip'') ?es = [(ustr ''a.zip'', module_zip (ustr ''id=a''))]"
    by simp
  from t n' g show ?thesis
    by blast
qed

text \<open>
  Claim C2. In every run and for every file of the input directory, at most one command
  is run for the file; and when one is, the file is an archive holding both marker
  entries whose \<open>module.prop\<close> has a line beginning with \<open>id=\<close> with a value that is not
  empty after trimming. A run without the input directory runs no command.
\<close>

theorem registered_at_most_once:
  assumes "distinct (map fst entries)" and "(name, f) \<in> set entries"
  shows "length (runs_for name (fst (snd (main exe sh w (Some entries))))) \<le> 1 \<and>
         (runs_for name (fst (snd (main exe sh w (Some entries)))) \<noteq> [] \<longrightarrow>
            (\<exists>ms t l. f = Archive ms \<and> updater_script \<in> set (namelist ms) \<and>
               update_binary \<in> set (namelist ms) \<and>
               zip_read ms module_prop = Inr (Text t) \<and>
               l \<in> set (map strip (splitlines t)) \<and> startswith (ustr ''id='') l \<and>
               strip (drop 3 l) \<noteq> [])) \<and>
         runs (fst (snd (main exe sh w None))) = []"
proof (intro conjI impI)
  note r = runs_for_entry [OF assms, of exe sh w]
  show "length (runs_for name (fst (snd (main exe sh w (Some entries))))) \<le> 1"
    by (simp add: r split: option.splits)
  show "runs (fst (snd (main exe sh w None))) = []"
    by (simp add: main_missing)
  assume "runs_for name (fst (snd (main exe sh w (Some entries)))) \<noteq> []"
  with r obtain i where "snd (extract_module_id name f) = Some i"
    by (auto split: option.splits if_splits)
  from extract_Some [OF this] obtain ms t l where a: "f = Archive ms"
    "updater_script \<in> set (namelist ms)" "update_binary \<in> set (namelist ms)"
    "zip_read ms module_prop = Inr (Text t)"
    and f: "List.find (\<lambda>l. startswith (ustr ''id='') l \<and> strip (drop 3 l) \<noteq> [])
             (map strip (splitlines t)) = Some l"
    by blast
  from find_in_set [OF f] find_startswith [OF f] a
  show "\<exists>ms t l. f = Archive ms \<and> updater_script \<in> set (namelist ms) \<and>
               update_binary \<in> set (namelist ms) \<and>
               zip_read ms module_prop = Inr (Text t) \<and>
               l \<in> set (map strip (splitlines t)) \<and> startswith (ustr ''id='') l \<and>
               strip (drop 3 l) \<noteq> []"
    by blast
qed

theorem registered_at_most_once_witness:
  "length (runs_for (ustr ''a.zip'') (fst (snd (main (ustr ''python3'') (counting_tool 1) 0
      (Some [(ustr ''a.zip'', module_zip (ustr ''id=a'')),
             (ustr ''b.zip'', Unopenable (Exn (ustr ''File is not a zip file'')))]))))) \<le> 1 \<and>
   runs_for (ustr ''a.zip'') (fst (snd (main (ustr ''python3'') (counting_tool 1) 0
      (Some [(ustr ''a.zip'', module_zip (ustr ''id=a'')),
             (ustr ''b.zip'', Unopenable (Exn (ustr ''File is not a zip file'')))])))) \<noteq> [] \<and>
   (\<exists>ms t l. module_zip (ustr ''id=a'') = Archive ms \<and> updater_script \<in> set (namelist ms) \<and>
      update_binary \<in> set (namelist ms) \<and> zip_read ms module_prop = Inr (Text t) \<and>
      l \<in> set (map strip (splitlines t)) \<and> startswith (ustr ''id='') l \<and>
      strip (drop 3 l) \<noteq> [])"
proof -
  let ?es = "[(ustr ''a.zip'', module_zip (ustr ''id=a'')),
              (ustr ''b.zip'', Unopenable (Exn (ustr ''File is not a zip file'')))]"
  have d: "distinct (map fst ?es)"
    by (simp add: ustr_simps)
  have m: "(ustr ''a.zip'', module_zip (ustr ''id=a'')) \<in> set ?es"
    by simp
  have y: "suffix (ustr ''.zip'') (ustr ''a.zip'')"
    by (simp add: ustr_simps suffix_def)
  have n: "runs_for (ustr ''a.zip'') (fst (snd (main (ustr ''python3'') (counting_tool 1) 0
      (Some ?es)))) \<noteq> []"
    by (simp add: runs_for_entry [OF d m] y extract_sample)
  from registered_at_most_once [OF d m, of "ustr ''python3''" "counting_tool 1" 0] n
  show ?thesis by blast
qed












end
